theory Spec2Isabelle
  imports
    Complex_Main
    "HOL-Library.Sublist"
    "HOL-Library.Multiset"
    "HOL-Library.Char_ord"
    "HOL-Library.List_Lexorder"
begin

section \<open>The movie dashboard of \<^verbatim>\<open>app.py\<close>\<close>

text \<open>
  \<^verbatim>\<open>app.py\<close> is one script: \<^verbatim>\<open>load_data\<close> cleans a spreadsheet into a data frame, and the
  rest of the script is re-run on every interaction with the two selections of the sidebar.
  A data frame is modelled row by row, in the order of its index. The pandas and numpy
  primitives that the script calls (\<^verbatim>\<open>isin\<close>, boolean indexing, \<^verbatim>\<open>mean\<close>, \<^verbatim>\<open>nlargest\<close>,
  \<^verbatim>\<open>value_counts\<close>, \<^verbatim>\<open>to_numeric\<close>, \<^verbatim>\<open>dropna\<close>, array arithmetic) are written out with the
  behaviour their documentation gives them. The cells of a float column are finite doubles,
  written as the rationals they are; the values a float operation can produce besides
  (\<^verbatim>\<open>nan\<close>, \<^verbatim>\<open>inf\<close>) are kept as values of their own. The two averages of the KPIs are
  computed in float64 arithmetic, every operation rounded to the nearest double; the marker
  sizes are computed with exact division. Python integers and the 64-bit vote counts and
  years are \<open>int\<close>, without the wrap-around of int64, which such counts and years do not
  reach.
\<close>

subsection \<open>Python strings\<close>

text \<open>
  \<^verbatim>\<open>str.isspace\<close> on the code points below 256: TAB, LF, VT, FF, CR, the four separators
  \<^verbatim>\<open>0x1c..0x1f\<close>, the space, NEL and the no-break space.
\<close>

definition isspace :: "char \<Rightarrow> bool" where
  "isspace c = (of_char c \<in> {9, 10, 11, 12, 13, 28, 29, 30, 31, 32, 133, 160 :: nat})"

text \<open>\<^verbatim>\<open>s.strip()\<close>: leading and trailing whitespace removed.\<close>

definition strip :: "string \<Rightarrow> string" where
  "strip s = rev (dropWhile isspace (rev (dropWhile isspace s)))"

text \<open>
  \<^verbatim>\<open>s.split(sep)\<close> for a separator of one character: the empty string gives one empty
  field, and \<open>n\<close> separators give \<open>n + 1\<close> fields.
\<close>

fun str_split :: "char \<Rightarrow> string \<Rightarrow> string list" where
  "str_split sep [] = [[]]"
| "str_split sep (c # cs) =
     (if c = sep then [] # str_split sep cs
      else (case str_split sep cs of
              [] \<Rightarrow> [[c]]
            | w # ws \<Rightarrow> (c # w) # ws))"

text \<open>\<^verbatim>\<open>sub in s\<close> on strings.\<close>

fun str_contains :: "string \<Rightarrow> string \<Rightarrow> bool" where
  "str_contains sub [] = (sub = [])"
| "str_contains sub (c # cs) = (prefix sub (c # cs) \<or> str_contains sub cs)"

subsection \<open>The loaded data frame\<close>

text \<open>
  A cell of the spreadsheet as pandas reads it: missing (\<^verbatim>\<open>NaN\<close>, \<^verbatim>\<open>None\<close>, \<^verbatim>\<open><NA>\<close>),
  a number, or a string.
\<close>

datatype cell = Null | Num rat | Str string

text \<open>
  A row of the frame \<^verbatim>\<open>df\<close> that \<^verbatim>\<open>load_data\<close> returns, with the columns the script reads
  and their dtypes after loading: \<^verbatim>\<open>Title\<close> is an object column, \<^verbatim>\<open>Release_Date\<close> is
  \<^verbatim>\<open>int\<close>, \<^verbatim>\<open>Genre\<close> holds strings, \<^verbatim>\<open>Vote_Average\<close> and \<^verbatim>\<open>Popularity\<close> are floats with the
  missing values filled by \<^verbatim>\<open>0.0\<close>, and \<^verbatim>\<open>Vote_Count\<close> is the nullable \<^verbatim>\<open>Int64\<close>.
\<close>

record movie =
  Title :: cell
  Release_Date :: int
  Genre :: string
  Vote_Average :: rat
  Popularity :: rat
  Vote_Count :: "int option"

type_synonym dataframe = "movie list"

subsection \<open>Loading and cleaning: \<^verbatim>\<open>load_data\<close>\<close>

text \<open>The exceptions the script can raise, with the missing column for a \<^verbatim>\<open>KeyError\<close>.\<close>

datatype error = KeyError string | ValueError | TypeError

text \<open>
  The frame that \<^verbatim>\<open>pd.read_excel\<close> returns: the header names in order, and the rows, each
  giving the cell of every column (\<open>Null\<close> under a name that is no column). Header names
  are taken to be strings, distinct after stripping.
\<close>

record frame =
  columns :: "string list"
  rows :: "(string \<Rightarrow> cell) list"

text \<open>Renaming the columns by \<open>f\<close> (\<^verbatim>\<open>df.columns = ...\<close>, \<^verbatim>\<open>df.rename(columns=...)\<close>).\<close>

definition rename_columns :: "(string \<Rightarrow> string) \<Rightarrow> frame \<Rightarrow> frame" where
  "rename_columns f df =
     \<lparr>columns = map f (columns df),
      rows = map (\<lambda>r k. case find (\<lambda>c. f c = k) (columns df) of
                            None \<Rightarrow> Null
                          | Some c \<Rightarrow> r c) (rows df)\<rparr>"

text \<open>\<^verbatim>\<open>df[col] = ...\<close> with a value computed for each row; a new column goes to the end.\<close>

definition assign :: "string \<Rightarrow> ((string \<Rightarrow> cell) \<Rightarrow> cell) \<Rightarrow> frame \<Rightarrow> frame" where
  "assign col f df =
     \<lparr>columns = (if col \<in> set (columns df) then columns df else columns df @ [col]),
      rows = map (\<lambda>r. r(col := f r)) (rows df)\<rparr>"

text \<open>\<^verbatim>\<open>df.dropna(subset=...)\<close>: the rows with a missing cell in one of the columns go.\<close>

definition dropna :: "string list \<Rightarrow> frame \<Rightarrow> frame" where
  "dropna cols df =
     df\<lparr>rows := filter (\<lambda>r. list_all (\<lambda>c. r c \<noteq> Null) cols) (rows df)\<rparr>"

text \<open>
  \<^verbatim>\<open>pd.to_numeric(..., errors="coerce")\<close> on one cell. How pandas reads a number from a
  string is the parameter \<open>parse\<close>; a string it cannot read becomes \<^verbatim>\<open>NaN\<close>.
\<close>

definition to_numeric :: "(string \<Rightarrow> rat option) \<Rightarrow> cell \<Rightarrow> cell" where
  "to_numeric parse c =
     (case c of
        Null \<Rightarrow> Null
      | Num q \<Rightarrow> Num q
      | Str s \<Rightarrow> (case parse s of None \<Rightarrow> Null | Some q \<Rightarrow> Num q))"

text \<open>
  \<^verbatim>\<open>astype(str)\<close> on one cell. How a number is printed is the parameter \<open>num_str\<close>; a
  missing cell becomes the string \<^verbatim>\<open>nan\<close> (pandas before version 3).
\<close>

definition astype_str :: "(rat \<Rightarrow> string) \<Rightarrow> cell \<Rightarrow> string" where
  "astype_str num_str c = (case c of Null \<Rightarrow> ''nan'' | Num q \<Rightarrow> num_str q | Str s \<Rightarrow> s)"

text \<open>The cast of a float to an integer cuts the fraction off.\<close>

definition float_to_int :: "rat \<Rightarrow> int" where
  "float_to_int q = (if q \<ge> 0 then \<lfloor>q\<rfloor> else \<lceil>q\<rceil>)"

text \<open>Lines 24 to 30: finding the \<^verbatim>\<open>Genre\<close> column.\<close>

definition resolve_genre :: "frame \<Rightarrow> frame" where
  "resolve_genre df =
     (if ''Genre'' \<notin> set (columns df)
      then (let genre_candidates = filter (str_contains ''Genre'') (columns df)
            in if genre_candidates \<noteq> []
               then rename_columns
                      (\<lambda>c. if c = hd genre_candidates then ''Genre'' else c) df
               else assign ''Genre'' (\<lambda>_. Str []) df)
      else df)"

text \<open>
  Line 32:
  \<^verbatim>\<open>df["Genre"] = df["Genre"].astype(str).str.replace("\r", "", regex=True).str.strip()\<close>
\<close>

definition clean_genre :: "(rat \<Rightarrow> string) \<Rightarrow> frame \<Rightarrow> frame" where
  "clean_genre num_str df =
     assign ''Genre''
       (\<lambda>r. Str (strip (filter (\<lambda>ch. ch \<noteq> CHR 0x0D) (astype_str num_str (r ''Genre''))))) df"

text \<open>
  The loop of lines 37 to 47 over the three numeric columns. A column that is absent is
  created with zeros. A float column is read as numbers with \<^verbatim>\<open>0.0\<close> for what cannot be
  read. \<^verbatim>\<open>astype("Int64")\<close> keeps missing values and raises \<^verbatim>\<open>TypeError\<close> on a number that
  is not whole. The zeros of an absent \<^verbatim>\<open>Vote_Count\<close> are a new \<^verbatim>\<open>Series\<close>, which pandas aligns
  on the row labels: where rows were dropped before, a row whose label is not below the
  number of rows left gets a missing value, not 0. The rows carry no labels here and every
  row gets 0; \<open>size_numeric\<close> reads a missing count as 0 as well.
\<close>

datatype dtype = Float | Int64

fun ensure_numeric ::
  "(string \<Rightarrow> rat option) \<Rightarrow> (string \<times> dtype) list \<Rightarrow> frame \<Rightarrow> error + frame" where
  "ensure_numeric parse [] df = Inr df"
| "ensure_numeric parse ((col, dtype) # rest) df =
     (if col \<notin> set (columns df)
      then (if dtype = Int64
            then ensure_numeric parse rest (assign col (\<lambda>_. Num 0) df)
            else ensure_numeric parse rest (assign col (\<lambda>_. Num 0) df))
      else (if dtype = Int64
            then (let df' = assign col (\<lambda>r. to_numeric parse (r col)) df
                  in if list_all (\<lambda>r. case r col of
                                         Num q \<Rightarrow> of_int \<lfloor>q\<rfloor> = q
                                       | _ \<Rightarrow> True) (rows df')
                     then ensure_numeric parse rest df'
                     else Inl TypeError)
            else ensure_numeric parse rest
                   (assign col (\<lambda>r. case to_numeric parse (r col) of
                                      Null \<Rightarrow> Num 0
                                    | c \<Rightarrow> c) df)))"

text \<open>\<^verbatim>\<open>astype(int)\<close> on one cell of a numeric column.\<close>

definition astype_int :: "cell \<Rightarrow> cell" where
  "astype_int c = (case c of Num q \<Rightarrow> Num (of_int (float_to_int q)) | _ \<Rightarrow> c)"

text \<open>
  Line 49: \<^verbatim>\<open>df["Release_Date"] = df["Release_Date"].astype(int)\<close>, which raises on a missing
  value.
\<close>

definition release_date_astype_int :: "frame \<Rightarrow> error + frame" where
  "release_date_astype_int df =
     (if list_all (\<lambda>r. r ''Release_Date'' \<noteq> Null) (rows df)
      then Inr (assign ''Release_Date'' (\<lambda>r. astype_int (r ''Release_Date'')) df)
      else Inl ValueError)"

text \<open>
  \<^verbatim>\<open>load_data\<close>, from the frame that \<^verbatim>\<open>pd.read_excel\<close> has read. Reading a column that does
  not exist raises \<^verbatim>\<open>KeyError\<close>: \<^verbatim>\<open>Release_Date\<close> on line 33, \<^verbatim>\<open>Title\<close> on line 35.
\<close>

definition load_data ::
  "(string \<Rightarrow> rat option) \<Rightarrow> (rat \<Rightarrow> string) \<Rightarrow> frame \<Rightarrow> error + frame" where
  "load_data parse num_str excel =
     (let df = rename_columns strip excel;
          df = resolve_genre df;
          df = clean_genre num_str df
      in if ''Release_Date'' \<notin> set (columns df) then Inl (KeyError ''Release_Date'')
         else (let df = assign ''Release_Date''
                          (\<lambda>r. to_numeric parse (r ''Release_Date'')) df
               in if ''Title'' \<notin> set (columns df) then Inl (KeyError ''Title'')
                  else (let df = dropna [''Release_Date'', ''Title''] df
                        in case ensure_numeric parse
                                  [(''Vote_Average'', Float), (''Popularity'', Float),
                                   (''Vote_Count'', Int64)] df of
                             Inl e \<Rightarrow> Inl e
                           | Inr df \<Rightarrow> release_date_astype_int df)))"

text \<open>
  The rows of the loaded frame as typed records, for the rest of the script. After
  \<^verbatim>\<open>load_data\<close> the cells have the dtypes named above, so the fall-back values of the
  \<open>case\<close> expressions are never used.
\<close>

definition movies :: "frame \<Rightarrow> dataframe" where
  "movies df =
     map (\<lambda>r. \<lparr>Title = r ''Title'',
               Release_Date = (case r ''Release_Date'' of Num q \<Rightarrow> \<lfloor>q\<rfloor> | _ \<Rightarrow> 0),
               Genre = (case r ''Genre'' of Str s \<Rightarrow> s | _ \<Rightarrow> []),
               Vote_Average = (case r ''Vote_Average'' of Num q \<Rightarrow> q | _ \<Rightarrow> 0),
               Popularity = (case r ''Popularity'' of Num q \<Rightarrow> q | _ \<Rightarrow> 0),
               Vote_Count = (case r ''Vote_Count'' of Num q \<Rightarrow> Some \<lfloor>q\<rfloor> | _ \<Rightarrow> None)\<rparr>)
       (rows df)"

text \<open>The two cells of a row that \<^verbatim>\<open>load_data\<close> requires.\<close>

definition title_year :: "(string \<Rightarrow> cell) \<Rightarrow> cell \<times> cell" where
  "title_year r = (r ''Title'', r ''Release_Date'')"

subsection \<open>Sidebar: the years and the genres on offer\<close>

text \<open>\<^verbatim>\<open>Series.unique()\<close>: the distinct values in the order of their first appearance.\<close>

definition unique :: "'a list \<Rightarrow> 'a list" where
  "unique xs = rev (remdups (rev xs))"

text \<open>\<^verbatim>\<open>years = sorted(df["Release_Date"].dropna().unique())\<close>\<close>

definition years :: "dataframe \<Rightarrow> int list" where
  "years df = sort (unique (map Release_Date df))"

text \<open>
  The tokens of one cell in the comprehension of \<^verbatim>\<open>all_genres\<close>:
  \<^verbatim>\<open>g.strip() for g in (cell.split(",") if cell else []) if g.strip()\<close>
\<close>

definition cell_genres :: "string \<Rightarrow> string list" where
  "cell_genres cell =
     map strip (filter (\<lambda>g. strip g \<noteq> [])
       (if cell \<noteq> [] then str_split (CHR '','') cell else []))"

text \<open>\<^verbatim>\<open>all_genres = sorted(set(... for cell in genre_series ...))\<close>\<close>

definition all_genres :: "dataframe \<Rightarrow> string list" where
  "all_genres df = sort (remdups (concat (map (\<lambda>r. cell_genres (Genre r)) df)))"

subsection \<open>Applying the filters\<close>

text \<open>
  The predicate of line 113:
  \<^verbatim>\<open>any(sel in [g.strip() for g in x.split(",")] for sel in selected_genres)\<close>
\<close>

definition genre_match :: "string list \<Rightarrow> string \<Rightarrow> bool" where
  "genre_match selected_genres x =
     list_ex (\<lambda>sel. sel \<in> set (map strip (str_split (CHR '','') x))) selected_genres"

text \<open>
  \<^verbatim>\<open>filtered_df = df[df["Release_Date"].isin(selected_years)]\<close>, narrowed by the genres
  when \<^verbatim>\<open>selected_genres\<close> is a non-empty list.
\<close>

definition filtered_df :: "dataframe \<Rightarrow> int list \<Rightarrow> string list \<Rightarrow> dataframe" where
  "filtered_df df selected_years selected_genres =
     (let by_year = filter (\<lambda>r. Release_Date r \<in> set selected_years) df
      in if selected_genres \<noteq> []
         then filter (\<lambda>r. genre_match selected_genres (Genre r)) by_year
         else by_year)"

subsection \<open>Floating-point results\<close>

text \<open>
  A float64 as numpy produces it: a finite value, an infinity, or \<^verbatim>\<open>nan\<close>. A finite value
  is the rational number it stands for; the two zeros are not told apart.
\<close>

datatype npfloat = Fin rat | PosInf | NegInf | NaN

text \<open>
  True division of two int64 elements. numpy does not raise on a zero divisor: it warns
  and stores \<^verbatim>\<open>nan\<close> for \<^verbatim>\<open>0/0\<close> and a signed infinity otherwise.
\<close>

definition np_divide :: "int \<Rightarrow> int \<Rightarrow> npfloat" where
  "np_divide a b =
     (if b \<noteq> 0 then Fin (of_int a / of_int b)
      else if a = 0 then NaN
      else if a > 0 then PosInf else NegInf)"

definition np_times :: "npfloat \<Rightarrow> int \<Rightarrow> npfloat" where
  "np_times x k =
     (case x of
        Fin q \<Rightarrow> Fin (q * of_int k)
      | NaN \<Rightarrow> NaN
      | PosInf \<Rightarrow> (if k > 0 then PosInf else if k < 0 then NegInf else NaN)
      | NegInf \<Rightarrow> (if k > 0 then NegInf else if k < 0 then PosInf else NaN))"

definition np_plus :: "npfloat \<Rightarrow> int \<Rightarrow> npfloat" where
  "np_plus x k = (case x of Fin q \<Rightarrow> Fin (q + of_int k) | _ \<Rightarrow> x)"

subsection \<open>float64 arithmetic\<close>

text \<open>Rounding to the nearest integer, a tie going to the even neighbour (\<^verbatim>\<open>rint\<close>).\<close>

definition rint :: "rat \<Rightarrow> int" where
  "rint x =
     (let f = \<lfloor>x\<rfloor>; d = x - of_int f
      in if d < 1 / 2 then f
         else if d > 1 / 2 then f + 1
         else if even f then f else f + 1)"

text \<open>The number of binary digits of a positive integer, 0 for the others.\<close>

function bit_length :: "int \<Rightarrow> nat" where
  "bit_length n = (if n \<le> 0 then 0 else Suc (bit_length (n div 2)))"
  by pat_completeness auto
termination
  by (relation "measure nat") auto

declare bit_length.simps [simp del]

text \<open>The binary exponent of a positive rational \<open>x\<close>: \<open>2 ^ ilog2 x \<le> x < 2 ^ (ilog2 x + 1)\<close>.\<close>

definition ilog2 :: "rat \<Rightarrow> int" where
  "ilog2 x =
     (if x \<ge> 1 then int (bit_length \<lfloor>x\<rfloor>) - 1
      else - int (bit_length (\<lceil>1 / x\<rceil> - 1)))"

definition pow2 :: "int \<Rightarrow> rat" where
  "pow2 e = (if e \<ge> 0 then 2 ^ nat e else 1 / 2 ^ nat (- e))"

text \<open>
  The result of a float64 operation whose exact value is \<open>x\<close> (IEEE 754 binary64, round to
  nearest, ties to even). With \<open>e\<close> the binary exponent of \<open>x\<close>, not below \<open>-1022\<close> (the
  subnormal range), the doubles around \<open>x\<close> are the multiples of \<open>u = 2 ^ (e - 52)\<close>, and
  \<open>x\<close> goes to the nearest one, \<open>m * u\<close> with \<open>\<bar>m\<bar> \<le> 2 ^ 53\<close>. The operation overflows to
  an infinity when that multiple reaches \<open>2 ^ 1024\<close>, that is, when \<open>e \<ge> 1024\<close>, or
  \<open>e = 1023\<close> and \<open>\<bar>m\<bar> = 2 ^ 53\<close>.
\<close>

definition float64 :: "rat \<Rightarrow> npfloat" where
  "float64 x =
     (if x = 0 then Fin 0
      else (let e = max (ilog2 \<bar>x\<bar>) (- 1022);
                u = pow2 (e - 52);
                m = rint (x / u)
            in if e \<ge> 1024 \<or> (e = 1023 \<and> \<bar>m\<bar> \<ge> 2 ^ 53)
               then (if x > 0 then PosInf else NegInf)
               else Fin (of_int m * u)))"

text \<open>Addition of two doubles.\<close>

definition f64_add :: "npfloat \<Rightarrow> npfloat \<Rightarrow> npfloat" where
  "f64_add a b =
     (case (a, b) of
        (Fin x, Fin y) \<Rightarrow> float64 (x + y)
      | (NaN, _) \<Rightarrow> NaN
      | (_, NaN) \<Rightarrow> NaN
      | (PosInf, NegInf) \<Rightarrow> NaN
      | (NegInf, PosInf) \<Rightarrow> NaN
      | (PosInf, _) \<Rightarrow> PosInf
      | (NegInf, _) \<Rightarrow> NegInf
      | (_, PosInf) \<Rightarrow> PosInf
      | (_, NegInf) \<Rightarrow> NegInf)"

text \<open>
  Multiplication and division of a double by a positive finite double \<open>c\<close> (the row count,
  and the factor 100 of the rounding).
\<close>

definition f64_mul :: "npfloat \<Rightarrow> rat \<Rightarrow> npfloat" where
  "f64_mul x c = (case x of Fin q \<Rightarrow> float64 (q * c) | _ \<Rightarrow> x)"

definition f64_div :: "npfloat \<Rightarrow> rat \<Rightarrow> npfloat" where
  "f64_div x c = (case x of Fin q \<Rightarrow> float64 (q / c) | _ \<Rightarrow> x)"

text \<open>\<^verbatim>\<open>np.rint\<close> on a double: the result is a whole number, which is again a double.\<close>

definition np_rint :: "npfloat \<Rightarrow> npfloat" where
  "np_rint x = (case x of Fin q \<Rightarrow> Fin (of_int (rint q)) | _ \<Rightarrow> x)"

text \<open>
  The sum of a float64 array as numpy's \<^verbatim>\<open>add.reduce\<close> computes it (pairwise summation):
  fewer than 8 elements are added one after the other; up to 128 elements are added into 8
  accumulators, element \<open>i\<close> into accumulator \<open>i mod 8\<close>, the accumulators are combined
  as \<open>((r0 + r1) + (r2 + r3)) + ((r4 + r5) + (r6 + r7))\<close>, and the elements behind the last
  full block of 8 are added one after the other; a longer array is cut at half its length,
  rounded down to a multiple of 8, and the sums of the two parts are added.
\<close>

definition seq_sum :: "npfloat \<Rightarrow> rat list \<Rightarrow> npfloat" where
  "seq_sum res a = foldl (\<lambda>r x. f64_add r (Fin x)) res a"

fun add8 :: "npfloat list \<Rightarrow> rat list \<Rightarrow> npfloat list" where
  "add8 r (x0 # x1 # x2 # x3 # x4 # x5 # x6 # x7 # rest) =
     add8 (map2 f64_add r (map Fin [x0, x1, x2, x3, x4, x5, x6, x7])) rest"
| "add8 r rest = r"

function pairwise_sum :: "rat list \<Rightarrow> npfloat" where
  "pairwise_sum a =
     (if length a < 8 then seq_sum (Fin 0) a
      else if length a \<le> 128
      then (let r = add8 (map Fin (take 8 a)) (drop 8 a);
                res = f64_add
                        (f64_add (f64_add (r ! 0) (r ! 1)) (f64_add (r ! 2) (r ! 3)))
                        (f64_add (f64_add (r ! 4) (r ! 5)) (f64_add (r ! 6) (r ! 7)))
            in seq_sum res (drop (length a - length a mod 8) a))
      else (let n2 = length a div 2 - (length a div 2) mod 8
            in f64_add (pairwise_sum (take n2 a)) (pairwise_sum (drop n2 a))))"
  by pat_completeness auto
termination
  by (relation "measure length") auto

declare pairwise_sum.simps [simp del]

text \<open>
  \<^verbatim>\<open>Series.mean()\<close> of a float column without missing values: the float64 sum divided by
  the number of rows; \<^verbatim>\<open>nan\<close> on no rows.
\<close>

definition mean :: "rat list \<Rightarrow> npfloat" where
  "mean xs = (if xs = [] then NaN else f64_div (pairwise_sum xs) (of_nat (length xs)))"

text \<open>
  \<^verbatim>\<open>round(x, 2)\<close> on a numpy float64: multiply by 100, \<^verbatim>\<open>rint\<close>, divide by 100, each step
  a float64 operation.
\<close>

definition py_round2 :: "npfloat \<Rightarrow> npfloat" where
  "py_round2 x = f64_div (np_rint (f64_mul x 100)) 100"

subsection \<open>KPIs\<close>

definition total_movies :: "dataframe \<Rightarrow> nat" where
  "total_movies filtered = length filtered"

definition avg_rating :: "dataframe \<Rightarrow> npfloat" where
  "avg_rating filtered =
     (if total_movies filtered > 0 then py_round2 (mean (map Vote_Average filtered))
      else Fin 0)"

definition avg_popularity :: "dataframe \<Rightarrow> npfloat" where
  "avg_popularity filtered =
     (if total_movies filtered > 0 then py_round2 (mean (map Popularity filtered))
      else Fin 0)"

subsection \<open>Tab 2: the ten most popular movies\<close>

text \<open>
  \<^verbatim>\<open>DataFrame.nlargest(n, column)\<close> with the default \<^verbatim>\<open>keep="first"\<close>: the first \<open>n\<close> rows in
  descending order of the column, rows with equal values in the order of the frame. The
  column has no missing value here. \<open>sort_key\<close> is a stable sort.
\<close>

definition nlargest :: "nat \<Rightarrow> ('a \<Rightarrow> rat) \<Rightarrow> 'a list \<Rightarrow> 'a list" where
  "nlargest n column df = take n (sort_key (\<lambda>r. - column r) df)"

text \<open>
  \<^verbatim>\<open>top_movies = filtered_df.nlargest(10, "Popularity")[["Title", "Popularity", "Vote_Average"]]\<close>,
  computed only when the filtered frame has rows (\<open>None\<close>: the tab shows a notice).
\<close>

definition top_movies :: "dataframe \<Rightarrow> (cell \<times> rat \<times> rat) list option" where
  "top_movies filtered =
     (if total_movies filtered > 0
      then Some (map (\<lambda>r. (Title r, Popularity r, Vote_Average r))
                   (nlargest 10 Popularity filtered))
      else None)"

subsection \<open>Tab 3: genre distribution\<close>

text \<open>
  The loop of lines 193 to 195:
  \<^verbatim>\<open>if genres: genre_split.extend([g.strip() for g in genres.split(",") if g.strip()])\<close>
\<close>

definition genre_split :: "dataframe \<Rightarrow> string list" where
  "genre_split filtered =
     concat (map (\<lambda>genres.
         if genres \<noteq> []
         then map strip (filter (\<lambda>g. strip g \<noteq> []) (str_split (CHR '','') genres))
         else [])
       (map Genre filtered))"

text \<open>
  \<^verbatim>\<open>Series.value_counts().reset_index()\<close>: one row for each distinct value with the number of
  its occurrences, the larger counts first. Equal counts are put in the order of first
  appearance; nothing below depends on that order.
\<close>

definition value_counts :: "'a list \<Rightarrow> ('a \<times> nat) list" where
  "value_counts xs =
     sort_key (\<lambda>p. - int (snd p)) (map (\<lambda>v. (v, count_list xs v)) (unique xs))"

definition genre_df :: "dataframe \<Rightarrow> (string \<times> nat) list option" where
  "genre_df filtered =
     (if total_movies filtered > 0
      then (if genre_split filtered \<noteq> [] then Some (value_counts (genre_split filtered))
            else None)
      else None)"

subsection \<open>Tab 4: marker sizes\<close>

text \<open>
  \<^verbatim>\<open>size_numeric = pd.to_numeric(size_series, errors="coerce").fillna(0).astype(int)\<close> on the
  nullable integer column \<^verbatim>\<open>Vote_Count\<close>.
\<close>

definition size_numeric :: "dataframe \<Rightarrow> int list" where
  "size_numeric filtered =
     map (\<lambda>c. case c of None \<Rightarrow> 0 | Some n \<Rightarrow> n) (map Vote_Count filtered)"

definition min_size :: int where
  "min_size = 5"

definition max_display_size :: int where
  "max_display_size = 40"

text \<open>
  Lines 227 to 232. \<^verbatim>\<open>size_vals.max()\<close> raises \<^verbatim>\<open>ValueError\<close> on an array without elements.
  \<^verbatim>\<open>np.full_like(size_vals, fill_value=min_size, dtype=float)\<close> is an array of the same
  length holding \<^verbatim>\<open>5.0\<close>.
\<close>

fun plot_sizes :: "int list \<Rightarrow> error + npfloat list" where
  "plot_sizes [] = Inl ValueError"
| "plot_sizes (v # vs) =
     (let size_vals = v # vs;
          vmax = fold max vs v;
          vmin = fold min vs v
      in if vmax > 0
         then Inr (map (\<lambda>x. np_plus
                     (np_times (np_divide (x - vmin) (vmax - vmin))
                        (max_display_size - min_size))
                     min_size) size_vals)
         else Inr (map (\<lambda>_. Fin (of_int min_size)) size_vals))"

text \<open>The tab computes the sizes only when the filtered frame has rows.\<close>

definition tab4_sizes :: "dataframe \<Rightarrow> (error + npfloat list) option" where
  "tab4_sizes filtered =
     (if total_movies filtered > 0 then Some (plot_sizes (size_numeric filtered)) else None)"

subsection \<open>One run of the script\<close>

text \<open>
  Streamlit runs the script from the top on every interaction; \<^verbatim>\<open>df\<close> comes from the cache
  and the two multiselect widgets return the current selections.
\<close>

record dashboard =
  sidebar_years :: "int list"
  sidebar_genres :: "string list"
  view :: dataframe
  kpi_total :: nat
  kpi_rating :: npfloat
  kpi_popularity :: npfloat
  tab2 :: "(cell \<times> rat \<times> rat) list option"
  tab3 :: "(string \<times> nat) list option"
  tab4 :: "(error + npfloat list) option"

definition app :: "dataframe \<Rightarrow> int list \<Rightarrow> string list \<Rightarrow> dashboard" where
  "app df selected_years selected_genres =
     (let filtered = filtered_df df selected_years selected_genres
      in \<lparr>sidebar_years = years df,
          sidebar_genres = all_genres df,
          view = filtered,
          kpi_total = total_movies filtered,
          kpi_rating = avg_rating filtered,
          kpi_popularity = avg_popularity filtered,
          tab2 = top_movies filtered,
          tab3 = genre_df filtered,
          tab4 = tab4_sizes filtered\<rparr>)"

subsection \<open>The genre tokens as the specification words them\<close>

text \<open>
  Split every row's \<^verbatim>\<open>Genre\<close> on commas, trim the tokens, discard the empty tokens. The
  script computes its token lists with a test for the empty cell in front
  (\<open>cell_genres\<close>, \<open>genre_split\<close>); this is the list to compare them with.
\<close>

definition spec_tokens :: "dataframe \<Rightarrow> string list" where
  "spec_tokens df =
     concat (map (\<lambda>r. filter (\<lambda>t. t \<noteq> []) (map strip (str_split (CHR '','') (Genre r)))) df)"

subsection \<open>The averages as the specification words them\<close>

text \<open>The mean of the values of a column, as a number.\<close>

definition spec_mean :: "rat list \<Rightarrow> rat" where
  "spec_mean xs = sum_list xs / of_nat (length xs)"

text \<open>
  \<open>r\<close> is \<open>x\<close> rounded to two decimals: \<open>r\<close> is the double that stands for a whole number of
  hundredths \<open>k / 100\<close> which is at most half a hundredth away from \<open>x\<close>. Only the two whole
  numbers around \<open>x * 100\<close> can be that \<open>k\<close>.
\<close>

definition spec_rounded2 :: "npfloat \<Rightarrow> rat \<Rightarrow> bool" where
  "spec_rounded2 r x =
     list_ex (\<lambda>k. r = float64 (of_int k / 100) \<and> \<bar>of_int k / 100 - x\<bar> \<le> 1 / 200)
       [\<lfloor>x * 100\<rfloor>, \<lceil>x * 100\<rceil>]"

subsection \<open>Rows for the examples\<close>

definition mk_movie :: "string \<Rightarrow> int \<Rightarrow> string \<Rightarrow> rat \<Rightarrow> rat \<Rightarrow> int option \<Rightarrow> movie" where
  "mk_movie title year genres rating popularity votes =
     \<lparr>Title = Str title, Release_Date = year, Genre = genres,
      Vote_Average = rating, Popularity = popularity, Vote_Count = votes\<rparr>"

text \<open>
  A spreadsheet of three rows, with blanks around two header names and the genres under
  \<^verbatim>\<open>Genres\<close>: the second row has no title, the date of the third is not a number.
\<close>

definition excel_example :: frame where
  "excel_example =
     \<lparr>columns = ['' Title'', ''Release_Date '', ''Genres''],
      rows =
        [(\<lambda>_. Null)('' Title'' := Str ''Heat'', ''Release_Date '' := Num 1995,
                     ''Genres'' := Str ''Crime, Drama''),
         (\<lambda>_. Null)(''Release_Date '' := Num 2001, ''Genres'' := Str ''Drama''),
         (\<lambda>_. Null)('' Title'' := Str ''Solaris'', ''Release_Date '' := Str ''unknown'',
                     ''Genres'' := Str ''Drama'')]\<rparr>"

section \<open>Properties of the filter\<close>

lemma set_unique: "set (unique xs) = set xs"
  by (simp add: unique_def)

lemma years_set: "set (years df) = Release_Date ` set df"
  by (simp add: years_def set_unique)

lemma filtered_df_no_years: "filtered_df df [] selected_genres = []"
  by (simp add: filtered_df_def)

lemma filtered_df_all_years: "filtered_df df (years df) [] = df"
  by (simp add: filtered_df_def years_set)

text \<open>
  C1. The two empty selections are treated differently. With no year selected the filtered
  frame is empty, whatever the genres are. With every year of the frame selected and no
  genre selected, the filtered frame is the whole frame, row for row.
\<close>

theorem filter_empty_selection_asymmetry:
  "filtered_df df [] selected_genres = [] \<and> filtered_df df (years df) [] = df"
  by (simp add: filtered_df_no_years filtered_df_all_years)

lemma filtered_df_is_filter:
  "filtered_df df ys gs =
     filter (\<lambda>r. Release_Date r \<in> set ys \<and> (gs = [] \<or> genre_match gs (Genre r))) df"
  by (auto simp: filtered_df_def Let_def intro: filter_cong)

text \<open>
  C10. Filtering keeps the order of the frame: for every frame and every selection of years
  and genres the filtered frame is a subsequence of the frame, so that rows are neither
  reordered nor repeated.
\<close>

theorem filtered_df_subseq: "subseq (filtered_df df selected_years selected_genres) df"
  by (simp add: filtered_df_def Let_def subseq_filter_left subseq_order.order_trans)

section \<open>Marker sizes\<close>

lemma fold_max_Max: "fold max vs (v::int) = Max (set (v # vs))"
  by (rule Max.set_eq_fold [symmetric])

lemma fold_min_Min: "fold min vs (v::int) = Min (set (v # vs))"
  by (rule Min.set_eq_fold [symmetric])

lemma plot_sizes_nonempty:
  assumes "vs \<noteq> []"
  shows "plot_sizes vs =
     (if Max (set vs) > 0
      then Inr (map (\<lambda>x. np_plus
                  (np_times (np_divide (x - Min (set vs)) (Max (set vs) - Min (set vs))) 35)
                  5) vs)
      else Inr (map (\<lambda>_. Fin 5) vs))"
proof -
  obtain v ws where vs: "vs = v # ws"
    using assms by (cases vs) auto
  show ?thesis
    unfolding vs plot_sizes.simps Let_def fold_max_Max fold_min_Min
    by (simp only: min_size_def max_display_size_def) simp
qed

text \<open>
  When no vote count of the view is positive, every marker has the size 5 and nothing is
  divided.
\<close>

lemma plot_sizes_no_positive:
  assumes "vs \<noteq> []" and "Max (set vs) \<le> 0"
  shows "plot_sizes vs = Inr (replicate (length vs) (Fin 5))"
proof -
  have "\<not> 0 < Max (set vs)"
    using assms(2) by linarith
  then show ?thesis
    by (simp only: plot_sizes_nonempty [OF assms(1)] if_False map_replicate_const)
qed

text \<open>
  When the largest vote count is positive and differs from the smallest, the sizes are the
  linear rescaling of the counts from \<open>[min, max]\<close> to \<open>[5, 40]\<close>.
\<close>

lemma plot_sizes_rescale:
  assumes "vs \<noteq> []" and "Max (set vs) > 0" and "Min (set vs) < Max (set vs)"
  shows "plot_sizes vs =
    Inr (map (\<lambda>x. Fin (of_int (x - Min (set vs)) / of_int (Max (set vs) - Min (set vs)) * 35
                       + 5)) vs)"
  using assms by (simp add: plot_sizes_nonempty np_divide_def np_times_def np_plus_def)

lemma plot_sizes_10_20_30: "plot_sizes [10, 20, 30] = Inr [Fin 5, Fin (45 / 2), Fin 40]"
  by (simp add: np_divide_def np_times_def np_plus_def min_size_def max_display_size_def)

text \<open>
  The guard of line 227 tests \<^verbatim>\<open>size_vals.max() > 0\<close>, not \<^verbatim>\<open>max() > min()\<close>. When all
  vote counts of the view are the same positive number, the divisor \<^verbatim>\<open>max() - min()\<close> is 0
  and every size is \<^verbatim>\<open>0/0\<close>.
\<close>

lemma plot_sizes_constant:
  assumes "vs \<noteq> []" and "Max (set vs) > 0" and "Min (set vs) = Max (set vs)"
  shows "plot_sizes vs = Inr (replicate (length vs) NaN)"
proof -
  have "x = Max (set vs)" if "x \<in> set vs" for x
  proof -
    have "x \<le> Max (set vs)" "Min (set vs) \<le> x"
      using that by simp_all
    with assms(3) show ?thesis by simp
  qed
  then have "map (\<lambda>x. np_plus
                 (np_times (np_divide (x - Min (set vs)) (Max (set vs) - Min (set vs))) 35)
                 5) vs
      = map (\<lambda>_. NaN) vs"
    using assms(3) by (intro map_cong) (simp_all add: np_divide_def np_times_def np_plus_def)
  then show ?thesis
    using assms by (simp add: plot_sizes_nonempty map_replicate_const)
qed

text \<open>
  C2. The claim: a view whose largest vote count is 0 gets the size 5 for every row, and the
  transform never divides by zero. The first half holds (\<open>plot_sizes_no_positive\<close>). The
  second fails: on a view of one row with 7 votes the largest count is positive, the branch
  that divides is taken with the divisor \<open>7 - 7\<close>, and the size of the row is \<^verbatim>\<open>nan\<close>.
\<close>

theorem marker_size_one_row_divides_by_zero:
  "size_numeric [mk_movie ''Heat'' 1995 ''Crime'' 8 30 (Some 7)] = [7] \<and>
   tab4_sizes [mk_movie ''Heat'' 1995 ''Crime'' 8 30 (Some 7)] = Some (Inr [NaN])"
  by (simp add: tab4_sizes_def total_movies_def size_numeric_def mk_movie_def
      np_divide_def np_times_def np_plus_def)

text \<open>
  C3. The claim: whenever the largest vote count of the view is positive, each count is
  rescaled linearly from \<open>[min, max]\<close> to \<open>[5, 40]\<close>. It holds when the counts differ
  (\<open>plot_sizes_rescale\<close>, \<open>plot_sizes_10_20_30\<close>). On a view of three rows with 4 votes each
  the largest count is positive, and the sizes are three times \<^verbatim>\<open>nan\<close>, not values between
  5 and 40.
\<close>

theorem marker_size_equal_counts_not_rescaled:
  "tab4_sizes
     [mk_movie ''Alien'' 1979 ''Horror'' 8 40 (Some 4),
      mk_movie ''Brazil'' 1985 ''Drama'' 7 20 (Some 4),
      mk_movie ''Clue'' 1985 ''Comedy'' 7 10 (Some 4)] = Some (Inr [NaN, NaN, NaN])"
  by (simp add: tab4_sizes_def total_movies_def size_numeric_def mk_movie_def
      np_divide_def np_times_def np_plus_def)

section \<open>Summary metrics\<close>

text \<open>
  Some values of \<open>float64\<close>: the double 0.1; a tie going to the even neighbour and a number
  just above a tie; the sum of the doubles 0.1 and 0.2, which is not the double 0.3.
\<close>

lemma float64_tenth: "float64 (1 / 10) = Fin (3602879701896397 / 36028797018963968)"
  by code_simp

lemma float64_ties:
  "float64 9007199254740993 = Fin 9007199254740992"
  "float64 9007199254740995 = Fin 9007199254740996"
  "float64 (9007199254740993 + 1 / 1000) = Fin 9007199254740994"
  by code_simp+

lemma f64_add_tenths:
  "f64_add (float64 (1 / 10)) (float64 (2 / 10)) = Fin (1351079888211149 / 4503599627370496)"
  "float64 (3 / 10) = Fin (5404319552844595 / 18014398509481984)"
  by code_simp+

text \<open>The double nearest to 2.675, and the one nearest to 2.68.\<close>

lemma float64_2675: "float64 (2675 / 1000) = Fin (3011782250804019 / 1125899906842624)"
  by code_simp

lemma float64_268: "float64 (268 / 100) = Fin (6034823500676465 / 2251799813685248)"
  by code_simp

lemma spec_rounded2_iff:
  "spec_rounded2 r x \<longleftrightarrow>
     (\<exists>k::int. r = float64 (of_int k / 100) \<and> \<bar>of_int k / 100 - x\<bar> \<le> 1 / 200)"
proof
  assume "spec_rounded2 r x"
  then show "\<exists>k::int. r = float64 (of_int k / 100) \<and> \<bar>of_int k / 100 - x\<bar> \<le> 1 / 200"
    unfolding spec_rounded2_def by auto
next
  assume "\<exists>k::int. r = float64 (of_int k / 100) \<and> \<bar>of_int k / 100 - x\<bar> \<le> 1 / 200"
  then obtain k :: int where r: "r = float64 (of_int k / 100)"
    and b: "\<bar>of_int k / 100 - x\<bar> \<le> 1 / 200"
    by blast
  from b have lo: "x * 100 - 1 / 2 \<le> of_int k" and hi: "of_int k \<le> x * 100 + 1 / 2"
    by linarith+
  have "k = \<lfloor>x * 100\<rfloor> \<or> k = \<lceil>x * 100\<rceil>"
  proof (cases "of_int k \<le> x * 100")
    case True
    then have "k \<le> \<lfloor>x * 100\<rfloor>"
      by (simp add: le_floor_iff)
    moreover have "of_int \<lfloor>x * 100\<rfloor> - 1 < (of_int k :: rat)"
      using lo by linarith
    then have "\<lfloor>x * 100\<rfloor> - 1 < k"
      by (metis of_int_1 of_int_diff of_int_less_iff)
    ultimately show ?thesis by linarith
  next
    case False
    then have "\<lceil>x * 100\<rceil> \<le> k"
      by (simp add: ceiling_le_iff)
    moreover have "(of_int k :: rat) < of_int \<lceil>x * 100\<rceil> + 1"
      using hi by linarith
    then have "k < \<lceil>x * 100\<rceil> + 1"
      by (metis of_int_1 of_int_add of_int_less_iff)
    ultimately show ?thesis by linarith
  qed
  then show "spec_rounded2 r x"
    unfolding spec_rounded2_def using r b by auto
qed

text \<open>
  On ordinary ratings the float64 result is the exact mean rounded to two decimals: 8, 7
  and 7 give the double 7.33.
\<close>

lemma avg_rating_8_7_7:
  "avg_rating [mk_movie ''Up'' 2009 ''Family'' 8 50 None,
               mk_movie ''Jaws'' 1975 ''Thriller'' 7 90 None,
               mk_movie ''Big'' 1988 ''Comedy'' 7 50 None] = float64 (733 / 100)"
  by code_simp

lemma avg_rating_8_7_7_rounded:
  "spec_rounded2
     (avg_rating [mk_movie ''Up'' 2009 ''Family'' 8 50 None,
                  mk_movie ''Jaws'' 1975 ''Thriller'' 7 90 None,
                  mk_movie ''Big'' 1988 ''Comedy'' 7 50 None])
     (spec_mean [8, 7, 7])"
  by code_simp













section \<open>The ten most popular movies\<close>

lemma nlargest_length: "length (nlargest n f xs) = min n (length xs)"
  by (simp add: nlargest_def min.commute)

lemma sort_key_desc:
  fixes f :: "'a \<Rightarrow> rat"
  shows "sorted_wrt (\<lambda>a b. f a \<ge> f b) (sort_key (\<lambda>r. - f r) xs)"
proof -
  have "sorted (map (\<lambda>r. - f r) (sort_key (\<lambda>r. - f r) xs))"
    by (rule sorted_sort_key)
  then show ?thesis
    by (simp add: sorted_map)
qed

lemma nlargest_sorted: "sorted_wrt (\<lambda>a b. f a \<ge> f b) (nlargest n f xs)"
  unfolding nlargest_def by (rule sorted_wrt_take [OF sort_key_desc])

lemma nlargest_stable:
  "prefix (filter (\<lambda>r. f r = p) (nlargest n f xs)) (filter (\<lambda>r. f r = p) xs)"
proof -
  have "filter (\<lambda>r. - f r = - p) (sort_key (\<lambda>r. - f r) xs) = filter (\<lambda>r. - f r = - p) xs"
    by (rule sort_key_stable)
  then have "filter (\<lambda>r. f r = p) (sort_key (\<lambda>r. - f r) xs) = filter (\<lambda>r. f r = p) xs"
    by simp
  moreover have "prefix (filter (\<lambda>r. f r = p) (take n (sort_key (\<lambda>r. - f r) xs)))
                        (filter (\<lambda>r. f r = p) (sort_key (\<lambda>r. - f r) xs))"
    by (rule filter_mono_prefix [OF take_is_prefix])
  ultimately show ?thesis
    by (simp add: nlargest_def)
qed

lemma nlargest_rest:
  "mset xs = mset (nlargest n f xs) + mset (drop n (sort_key (\<lambda>r. - f r) xs))"
proof -
  have "mset (sort_key (\<lambda>r. - f r) xs) = mset xs"
    by simp
  moreover have "mset (take n (sort_key (\<lambda>r. - f r) xs)) + mset (drop n (sort_key (\<lambda>r. - f r) xs))
     = mset (sort_key (\<lambda>r. - f r) xs)"
    by (simp flip: mset_append)
  ultimately show ?thesis
    by (simp add: nlargest_def)
qed

lemma nlargest_subset: "mset (nlargest n f xs) \<subseteq># mset xs"
  using nlargest_rest [of xs n f] by (metis mset_subset_eq_add_left)

lemma nlargest_dominates:
  assumes "a \<in># mset xs - mset (nlargest n f xs)" and "b \<in> set (nlargest n f xs)"
  shows "f a \<le> f b"
proof -
  let ?ys = "sort_key (\<lambda>r. - f r) xs"
  have "mset xs - mset (nlargest n f xs) = mset (drop n ?ys)"
    using nlargest_rest [of xs n f] by simp
  then have a: "a \<in> set (drop n ?ys)"
    using assms(1) by simp
  have b: "b \<in> set (take n ?ys)"
    using assms(2) by (simp add: nlargest_def)
  have "sorted_wrt (\<lambda>a b. f a \<ge> f b) (take n ?ys @ drop n ?ys)"
    using sort_key_desc [of f xs] by simp
  then show ?thesis
    using a b unfolding sorted_wrt_append by blast
qed

lemma nlargest_all: "length xs \<le> n \<Longrightarrow> mset (nlargest n f xs) = mset xs"
  by (simp add: nlargest_def)

text \<open>
  C5. For every filtered frame, \<^verbatim>\<open>top_movies\<close> holds the title, popularity and rating of
  the rows that \<^verbatim>\<open>nlargest(10, "Popularity")\<close> selects (on a frame without rows the tab
  computes nothing). The selected rows are ten, or all rows when the frame has at most ten;
  they are in descending order of popularity; rows of equal popularity stand in the order
  the frame has them, the earlier ones being kept; and no row left out is more popular than
  a row that is kept.
\<close>

theorem top_movies_spec:
  "top_movies filtered =
     (if filtered = [] then None
      else Some (map (\<lambda>r. (Title r, Popularity r, Vote_Average r))
                   (nlargest 10 Popularity filtered))) \<and>
   length (nlargest 10 Popularity filtered) = min 10 (length filtered) \<and>
   sorted_wrt (\<lambda>a b. Popularity a \<ge> Popularity b) (nlargest 10 Popularity filtered) \<and>
   (\<forall>p. prefix (filter (\<lambda>r. Popularity r = p) (nlargest 10 Popularity filtered))
               (filter (\<lambda>r. Popularity r = p) filtered)) \<and>
   mset (nlargest 10 Popularity filtered) \<subseteq># mset filtered \<and>
   (\<forall>a \<in># mset filtered - mset (nlargest 10 Popularity filtered).
      \<forall>b \<in> set (nlargest 10 Popularity filtered). Popularity a \<le> Popularity b) \<and>
   (length filtered \<le> 10 \<longrightarrow> mset (nlargest 10 Popularity filtered) = mset filtered)"
proof (intro conjI allI ballI impI)
  show "top_movies filtered =
     (if filtered = [] then None
      else Some (map (\<lambda>r. (Title r, Popularity r, Vote_Average r))
                   (nlargest 10 Popularity filtered)))"
    by (simp add: top_movies_def total_movies_def)
  show "length (nlargest 10 Popularity filtered) = min 10 (length filtered)"
    by (rule nlargest_length)
  show "sorted_wrt (\<lambda>a b. Popularity a \<ge> Popularity b) (nlargest 10 Popularity filtered)"
    by (rule nlargest_sorted)
  show "prefix (filter (\<lambda>r. Popularity r = p) (nlargest 10 Popularity filtered))
               (filter (\<lambda>r. Popularity r = p) filtered)" for p
    by (rule nlargest_stable)
  show "mset (nlargest 10 Popularity filtered) \<subseteq># mset filtered"
    by (rule nlargest_subset)
  show "Popularity a \<le> Popularity b"
    if "a \<in># mset filtered - mset (nlargest 10 Popularity filtered)"
      and "b \<in> set (nlargest 10 Popularity filtered)" for a b
    using that by (rule nlargest_dominates)
  show "mset (nlargest 10 Popularity filtered) = mset filtered" if "length filtered \<le> 10"
    using that by (rule nlargest_all)
qed

text \<open>
  Three rows, two of them equally popular: the most popular row comes first, and \<open>Up\<close>
  stays in front of \<open>Big\<close> as in the frame.
\<close>

theorem top_movies_spec_witness:
  "length [mk_movie ''Up'' 2009 ''Family'' 8 50 None,
           mk_movie ''Jaws'' 1975 ''Thriller'' 8 90 None,
           mk_movie ''Big'' 1988 ''Comedy'' 7 50 None] \<le> 10 \<and>
   top_movies
     [mk_movie ''Up'' 2009 ''Family'' 8 50 None,
      mk_movie ''Jaws'' 1975 ''Thriller'' 8 90 None,
      mk_movie ''Big'' 1988 ''Comedy'' 7 50 None]
   = Some [(Str ''Jaws'', 90, 8), (Str ''Up'', 50, 8), (Str ''Big'', 50, 7)] \<and>
   mset (nlargest 10 Popularity
     [mk_movie ''Up'' 2009 ''Family'' 8 50 None,
      mk_movie ''Jaws'' 1975 ''Thriller'' 8 90 None,
      mk_movie ''Big'' 1988 ''Comedy'' 7 50 None])
   = mset [mk_movie ''Up'' 2009 ''Family'' 8 50 None,
           mk_movie ''Jaws'' 1975 ''Thriller'' 8 90 None,
           mk_movie ''Big'' 1988 ''Comedy'' 7 50 None]"
proof -
  let ?view = "[mk_movie ''Up'' 2009 ''Family'' 8 50 None,
                mk_movie ''Jaws'' 1975 ''Thriller'' 8 90 None,
                mk_movie ''Big'' 1988 ''Comedy'' 7 50 None]"
  have len: "length ?view \<le> 10"
    by simp
  note spec = top_movies_spec [of ?view]
  have all: "mset (nlargest 10 Popularity ?view) = mset ?view"
    using spec len by blast
  have "nlargest 10 Popularity ?view
      = [mk_movie ''Jaws'' 1975 ''Thriller'' 8 90 None,
         mk_movie ''Up'' 2009 ''Family'' 8 50 None,
         mk_movie ''Big'' 1988 ''Comedy'' 7 50 None]"
    by (simp add: nlargest_def mk_movie_def)
  moreover have "top_movies ?view
      = Some (map (\<lambda>r. (Title r, Popularity r, Vote_Average r)) (nlargest 10 Popularity ?view))"
    using spec by simp
  ultimately have "top_movies ?view
      = Some [(Str ''Jaws'', 90, 8), (Str ''Up'', 50, 8), (Str ''Big'', 50, 7)]"
    by (simp add: mk_movie_def)
  with len all show ?thesis
    by (intro conjI)
qed

section \<open>Genres\<close>

lemma strip_Nil: "strip [] = []"
  by (simp add: strip_def)

lemma tokens_of_cell:
  "(if g \<noteq> [] then map strip (filter (\<lambda>t. strip t \<noteq> []) (str_split c g)) else [])
     = filter (\<lambda>t. t \<noteq> []) (map strip (str_split c g))"
  by (cases g) (simp_all add: strip_Nil filter_map comp_def)

lemma cell_genres_eq:
  "cell_genres g = filter (\<lambda>t. t \<noteq> []) (map strip (str_split (CHR '','') g))"
  by (cases g) (simp_all add: cell_genres_def strip_Nil filter_map comp_def)

lemma genre_split_eq: "genre_split fv = spec_tokens fv"
  by (simp add: genre_split_def spec_tokens_def tokens_of_cell comp_def)

lemma distinct_unique: "distinct (unique xs)"
  by (simp add: unique_def)

lemma value_counts_keys: "distinct (map fst (value_counts xs))"
proof -
  have "mset (map fst (value_counts xs))
      = image_mset fst (mset (map (\<lambda>v. (v, count_list xs v)) (unique xs)))"
    unfolding value_counts_def by (simp only: mset_map mset_sort)
  also have "\<dots> = mset (map fst (map (\<lambda>v. (v, count_list xs v)) (unique xs)))"
    by (simp only: mset_map)
  also have "\<dots> = mset (unique xs)"
    by (simp add: comp_def)
  finally have "mset (map fst (value_counts xs)) = mset (unique xs)" .
  then show ?thesis
    using distinct_unique [of xs] by (metis mset_eq_imp_distinct_iff)
qed

lemma set_value_counts: "set (value_counts xs) = (\<lambda>v. (v, count_list xs v)) ` set xs"
  by (simp add: value_counts_def set_unique)

lemma map_of_value_counts:
  "map_of (value_counts xs) v = (if v \<in> set xs then Some (count_list xs v) else None)"
proof (cases "v \<in> set xs")
  case True
  then have "(v, count_list xs v) \<in> set (value_counts xs)"
    by (simp add: set_value_counts)
  then show ?thesis
    using True value_counts_keys [of xs] by simp
next
  case False
  then have "v \<notin> fst ` set (value_counts xs)"
    by (auto simp: set_value_counts)
  then show ?thesis
    using False by (simp add: map_of_eq_None_iff)
qed

text \<open>
  C7. For every filtered frame the genre table counts every token as often as it occurs in
  the token list of the specification (split each \<^verbatim>\<open>Genre\<close> on commas, trim, drop the empty
  tokens): each token of the list has one row holding its number of occurrences, and there
  is no other row; no table is built exactly when there is no token. The rows
  \<^verbatim>\<open>"Action, Drama"\<close> and \<^verbatim>\<open>"Action"\<close> give Action 2 and Drama 1.
\<close>

theorem genre_distribution_counts:
  "(case genre_df fv of
      None \<Rightarrow> spec_tokens fv = []
    | Some counts \<Rightarrow>
        distinct (map fst counts) \<and>
        (\<forall>g. map_of counts g =
               (if g \<in> set (spec_tokens fv) then Some (count (mset (spec_tokens fv)) g)
                else None))) \<and>
   genre_df [mk_movie ''Heat'' 1995 ''Action, Drama'' 8 30 (Some 7),
             mk_movie ''Speed'' 1994 ''Action'' 7 20 (Some 5)]
     = Some [(''Action'', 2), (''Drama'', 1)]"
proof (intro conjI)
  show "case genre_df fv of
      None \<Rightarrow> spec_tokens fv = []
    | Some counts \<Rightarrow>
        distinct (map fst counts) \<and>
        (\<forall>g. map_of counts g =
               (if g \<in> set (spec_tokens fv) then Some (count (mset (spec_tokens fv)) g)
                else None))"
  proof (cases "spec_tokens fv = []")
    case True
    then show ?thesis
      by (simp add: genre_df_def genre_split_eq)
  next
    case False
    then have "fv \<noteq> []"
      by (auto simp: spec_tokens_def)
    then have "genre_df fv = Some (value_counts (spec_tokens fv))"
      using False by (simp add: genre_df_def genre_split_eq total_movies_def)
    then show ?thesis
      by (simp add: value_counts_keys map_of_value_counts count_mset)
  qed
  show "genre_df [mk_movie ''Heat'' 1995 ''Action, Drama'' 8 30 (Some 7),
             mk_movie ''Speed'' 1994 ''Action'' 7 20 (Some 5)]
     = Some [(''Action'', 2), (''Drama'', 1)]"
    by (simp add: genre_df_def total_movies_def genre_split_def mk_movie_def value_counts_def
        unique_def strip_def isspace_def)
qed

lemma sorted_all_genres: "sorted (all_genres df) \<and> distinct (all_genres df)"
  by (simp add: all_genres_def)

text \<open>
  C8. The genres offered in the sidebar are the trimmed, non-empty comma-separated tokens
  of the \<^verbatim>\<open>Genre\<close> cells of all rows of the loaded frame, whatever the filtered frame is,
  and a run of the script with other selections of years and genres offers the same list.
\<close>

theorem genre_universe:
  "set (sidebar_genres (app df selected_years selected_genres))
     = (\<Union>r \<in> set df. {t. t \<noteq> [] \<and> t \<in> strip ` set (str_split (CHR '','') (Genre r))}) \<and>
   sidebar_genres (app df selected_years selected_genres)
     = sidebar_genres (app df other_years other_genres)"
  by (auto simp: app_def Let_def all_genres_def cell_genres_eq)

section \<open>The loader\<close>

lemma rows_assign: "rows (assign col f df) = map (\<lambda>r. r(col := f r)) (rows df)"
  by (simp add: assign_def)

lemma rows_dropna:
  "rows (dropna cols df) = filter (\<lambda>r. list_all (\<lambda>c. r c \<noteq> Null) cols) (rows df)"
  by (simp add: dropna_def)

lemma find_eq_key: "find (\<lambda>c. c = k) cs = (if k \<in> set cs then Some k else None)"
  by (induction cs) auto

lemma find_no_preimage: "k \<notin> f ` set cs \<Longrightarrow> find (\<lambda>c. f c = k) cs = None"
  by (induction cs) auto

lemma rename_columns_absent:
  assumes "k \<notin> set (columns (rename_columns f df))"
    and "r \<in> set (rows (rename_columns f df))"
  shows "r k = Null"
proof -
  have "find (\<lambda>c. f c = k) (columns df) = None"
    using assms(1) by (intro find_no_preimage) (simp add: rename_columns_def)
  then show ?thesis
    using assms(2) by (auto simp: rename_columns_def)
qed

lemma column_assign_other:
  "k \<noteq> col \<Longrightarrow> map (\<lambda>r. r k) (rows (assign col f df)) = map (\<lambda>r. r k) (rows df)"
  by (simp add: rows_assign comp_def)

lemma not_genre: "\<not> str_contains ''Genre'' ''Title''" "\<not> str_contains ''Genre'' ''Release_Date''"
  by simp_all

lemma column_resolve_genre:
  assumes wf: "k \<notin> set (columns df) \<Longrightarrow> \<forall>r \<in> set (rows df). r k = Null"
    and k: "k \<noteq> ''Genre''" "\<not> str_contains ''Genre'' k"
  shows "map (\<lambda>r. r k) (rows (resolve_genre df)) = map (\<lambda>r. r k) (rows df)"
proof (cases "''Genre'' \<in> set (columns df)")
  case True
  then show ?thesis by (simp add: resolve_genre_def)
next
  case False
  show ?thesis
  proof (cases "filter (str_contains ''Genre'') (columns df)")
    case Nil
    then show ?thesis
      using False k by (simp add: resolve_genre_def column_assign_other)
  next
    case (Cons cand rest)
    then have "cand \<in> set (filter (str_contains ''Genre'') (columns df))"
      by simp
    then have cand: "cand \<noteq> k"
      using k(2) by auto
    let ?g = "\<lambda>c. if c = cand then ''Genre'' else c"
    have g: "(?g c = k) = (c = k)" for c
      using k(1) cand by auto
    have "(case find (\<lambda>c. ?g c = k) (columns df) of None \<Rightarrow> Null | Some c \<Rightarrow> r c) = r k"
      if "r \<in> set (rows df)" for r
    proof (cases "k \<in> set (columns df)")
      case True
      then show ?thesis by (simp add: g find_eq_key)
    next
      case False
      moreover have "r k = Null"
        using wf [OF False] that by blast
      ultimately show ?thesis
        by (simp add: g find_eq_key)
    qed
    then have "map (\<lambda>r. r k) (rows (rename_columns ?g df)) = map (\<lambda>r. r k) (rows df)"
      by (simp add: rename_columns_def comp_def)
    then show ?thesis
      using False Cons by (simp add: resolve_genre_def)
  qed
qed

lemma column_clean_genre:
  "k \<noteq> ''Genre'' \<Longrightarrow> map (\<lambda>r. r k) (rows (clean_genre num_str df)) = map (\<lambda>r. r k) (rows df)"
  by (simp add: clean_genre_def column_assign_other)

lemma column_ensure_numeric:
  assumes "ensure_numeric parse specs df = Inr df'" and "k \<notin> fst ` set specs"
  shows "map (\<lambda>r. r k) (rows df') = map (\<lambda>r. r k) (rows df)"
  using assms
proof (induction parse specs df rule: ensure_numeric.induct)
  case (1 parse df)
  then show ?case by simp
next
  case (2 parse col dtype rest df)
  from "2.prems"(2) have k: "k \<noteq> col" "k \<notin> fst ` set rest"
    by auto
  show ?case
    using "2.prems"(1) "2.IH" k
    by (auto simp: Let_def column_assign_other split: if_splits)
qed

lemma map_pair_cong:
  assumes "map f xs = map f' ys" and "map g xs = map g' ys"
  shows "map (\<lambda>x. (f x, g x)) xs = map (\<lambda>y. (f' y, g' y)) ys"
proof -
  have "length xs = length ys"
    using assms(1) by (metis length_map)
  then show ?thesis
    using assms by (induction xs ys rule: list_induct2) auto
qed

lemma title_year_pipeline:
  "map (\<lambda>(t, d). (t, h d))
     (filter (\<lambda>(t, d). d \<noteq> Null \<and> t \<noteq> Null) (map (\<lambda>(t, d). (t, g d)) (map title_year xs)))
   = map (\<lambda>r. (r ''Title'', h (g (r ''Release_Date''))))
       (filter (\<lambda>r. r ''Title'' \<noteq> Null \<and> g (r ''Release_Date'') \<noteq> Null) xs)"
  by (induction xs) (auto simp: title_year_def)

lemma load_data_unfold:
  "load_data parse num_str excel =
     (if ''Release_Date'' \<notin> set (columns (clean_genre num_str (resolve_genre (rename_columns strip excel)))) then Inl (KeyError ''Release_Date'')
      else if ''Title'' \<notin> set (columns (assign ''Release_Date'' (\<lambda>r. to_numeric parse (r ''Release_Date'')) (clean_genre num_str (resolve_genre (rename_columns strip excel))))) then Inl (KeyError ''Title'')
      else case ensure_numeric parse
               [(''Vote_Average'', Float), (''Popularity'', Float), (''Vote_Count'', Int64)]
               (dropna [''Release_Date'', ''Title''] (assign ''Release_Date'' (\<lambda>r. to_numeric parse (r ''Release_Date'')) (clean_genre num_str (resolve_genre (rename_columns strip excel))))) of Inl e \<Rightarrow> Inl e | Inr E \<Rightarrow> release_date_astype_int E)"
    unfolding load_data_def Let_def by (rule refl)

lemma load_data_Inr:
  assumes "load_data parse num_str excel = Inr df"
  shows "\<exists>E. ensure_numeric parse
               [(''Vote_Average'', Float), (''Popularity'', Float), (''Vote_Count'', Int64)]
               (dropna [''Release_Date'', ''Title'']
                  (assign ''Release_Date'' (\<lambda>r. to_numeric parse (r ''Release_Date''))
                     (clean_genre num_str (resolve_genre (rename_columns strip excel)))))
             = Inr E \<and>
           release_date_astype_int E = Inr df"
proof (cases "ensure_numeric parse
               [(''Vote_Average'', Float), (''Popularity'', Float), (''Vote_Count'', Int64)]
               (dropna [''Release_Date'', ''Title'']
                  (assign ''Release_Date'' (\<lambda>r. to_numeric parse (r ''Release_Date''))
                     (clean_genre num_str (resolve_genre (rename_columns strip excel)))))")
  case (Inl e)
  then show ?thesis
    using assms unfolding load_data_unfold by (simp split: if_splits)
next
  case (Inr E)
  then have "release_date_astype_int E = Inr df"
    using assms unfolding load_data_unfold by (simp split: if_splits)
  then show ?thesis
    unfolding Inr by simp
qed

lemma load_data_rows:
  assumes "load_data parse num_str excel = Inr df"
  shows "map title_year (rows df)
    = map (\<lambda>r. (r ''Title'', astype_int (to_numeric parse (r ''Release_Date''))))
        (filter (\<lambda>r. r ''Title'' \<noteq> Null \<and> to_numeric parse (r ''Release_Date'') \<noteq> Null)
           (rows (rename_columns strip excel)))"
proof -
  let ?A = "rename_columns strip excel"
  let ?B = "clean_genre num_str (resolve_genre ?A)"
  let ?C = "assign ''Release_Date'' (\<lambda>r. to_numeric parse (r ''Release_Date'')) ?B"
  let ?D = "dropna [''Release_Date'', ''Title''] ?C"
  let ?specs = "[(''Vote_Average'', Float), (''Popularity'', Float), (''Vote_Count'', Int64)]"
  obtain E where E: "ensure_numeric parse ?specs ?D = Inr E"
    and df: "release_date_astype_int E = Inr df"
    using load_data_Inr [OF assms] by (elim exE conjE)
  have wfA: "k \<notin> set (columns ?A) \<Longrightarrow> \<forall>r \<in> set (rows ?A). r k = Null" for k
    by (intro ballI) (rule rename_columns_absent)
  have AB: "map (\<lambda>r. r k) (rows ?B) = map (\<lambda>r. r k) (rows ?A)"
    if "k \<noteq> ''Genre''" "\<not> str_contains ''Genre'' k" for k
    using that by (simp add: column_clean_genre column_resolve_genre [OF wfA])
  have B: "map title_year (rows ?B) = map title_year (rows ?A)"
    unfolding title_year_def by (intro map_pair_cong AB) simp_all
  have C: "map title_year (rows ?C) = map (\<lambda>(t, d). (t, to_numeric parse d)) (map title_year (rows ?B))"
    by (simp add: rows_assign title_year_def)
  have D: "map title_year (rows ?D)
      = filter (\<lambda>(t, d). d \<noteq> Null \<and> t \<noteq> Null) (map title_year (rows ?C))"
    by (simp add: rows_dropna filter_map comp_def title_year_def)
  have E': "map title_year (rows E) = map title_year (rows ?D)"
    unfolding title_year_def by (intro map_pair_cong column_ensure_numeric [OF E]) simp_all
  have "df = assign ''Release_Date'' (\<lambda>r. astype_int (r ''Release_Date'')) E"
    using df by (simp add: release_date_astype_int_def split: if_splits)
  then have F: "map title_year (rows df) = map (\<lambda>(t, d). (t, astype_int d)) (map title_year (rows E))"
    by (simp add: rows_assign title_year_def)
  show ?thesis
    unfolding F E' D C B by (rule title_year_pipeline)
qed

lemma list_all_title_year:
  "list_all P (map title_year xs) = list_all (\<lambda>r. P (r ''Title'', r ''Release_Date'')) xs"
  by (simp add: list_all_iff title_year_def)

lemma astype_int_to_numeric:
  "to_numeric parse c \<noteq> Null \<Longrightarrow> \<exists>k::int. astype_int (to_numeric parse c) = Num (of_int k)"
  by (cases c) (auto simp: astype_int_def to_numeric_def split: option.splits)

text \<open>
  C6. Whenever \<^verbatim>\<open>load_data\<close> returns a frame, every row of it has a \<^verbatim>\<open>Title\<close> that is not
  missing and a \<^verbatim>\<open>Release_Date\<close> that is a whole number. Its rows are, in order, the rows of
  the spreadsheet (read under the stripped header names) whose \<^verbatim>\<open>Title\<close> is present and whose
  \<^verbatim>\<open>Release_Date\<close> reads as a number, with that number cut to an integer; the rows with a
  missing title or a date that does not read as a number are gone. The typed records carry
  the same titles and years.
\<close>

theorem load_data_invariant:
  assumes "load_data parse num_str excel = Inr df"
  shows "list_all (\<lambda>r. r ''Title'' \<noteq> Null \<and> (\<exists>k::int. r ''Release_Date'' = Num (of_int k)))
           (rows df) \<and>
         map title_year (rows df)
           = map (\<lambda>r. (r ''Title'', astype_int (to_numeric parse (r ''Release_Date''))))
               (filter (\<lambda>r. r ''Title'' \<noteq> Null \<and> to_numeric parse (r ''Release_Date'') \<noteq> Null)
                  (rows (rename_columns strip excel))) \<and>
         map (\<lambda>m. (Title m, Num (of_int (Release_Date m)))) (movies df)
           = map title_year (rows df)"
proof -
  let ?kept = "filter (\<lambda>r. r ''Title'' \<noteq> Null \<and> to_numeric parse (r ''Release_Date'') \<noteq> Null)
                  (rows (rename_columns strip excel))"
  have eq: "map title_year (rows df)
      = map (\<lambda>r. (r ''Title'', astype_int (to_numeric parse (r ''Release_Date'')))) ?kept"
    using assms by (rule load_data_rows)
  have "list_all (\<lambda>p. fst p \<noteq> Null \<and> (\<exists>k::int. snd p = Num (of_int k)))
          (map (\<lambda>r. (r ''Title'', astype_int (to_numeric parse (r ''Release_Date'')))) ?kept)"
    by (simp add: list_all_iff astype_int_to_numeric)
  then have inv: "list_all (\<lambda>r. r ''Title'' \<noteq> Null \<and> (\<exists>k::int. r ''Release_Date'' = Num (of_int k)))
           (rows df)"
    unfolding eq [symmetric] list_all_title_year by simp
  have "Num (of_int (case r ''Release_Date'' of Num q \<Rightarrow> \<lfloor>q\<rfloor> | _ \<Rightarrow> 0)) = r ''Release_Date''"
    if r: "r \<in> set (rows df)" for r
  proof -
    obtain k :: int where "r ''Release_Date'' = Num (of_int k)"
      using inv r unfolding list_all_iff by blast
    then show ?thesis
      by simp
  qed
  then have mv: "map (\<lambda>m. (Title m, Num (of_int (Release_Date m)))) (movies df)
           = map title_year (rows df)"
    by (simp add: movies_def comp_def title_year_def)
  from inv eq mv show ?thesis
    by (intro conjI)
qed

lemma excel_example_loads: "\<exists>df. load_data (\<lambda>_. None) (\<lambda>_. []) excel_example = Inr df"
  by (simp add: load_data_def excel_example_def rename_columns_def resolve_genre_def
      clean_genre_def assign_def dropna_def release_date_astype_int_def to_numeric_def
      astype_str_def astype_int_def strip_def isspace_def Let_def)

text \<open>
  The example spreadsheet loads into one record: the genres are found under \<^verbatim>\<open>Genres\<close>, and
  the three numeric columns, absent from the sheet, are created with zeros.
\<close>

lemma excel_example_movies:
  "(case load_data (\<lambda>_. None) (\<lambda>_. []) excel_example of
      Inl e \<Rightarrow> []
    | Inr df \<Rightarrow> movies df)
   = [\<lparr>Title = Str ''Heat'', Release_Date = 1995, Genre = ''Crime, Drama'',
       Vote_Average = 0, Popularity = 0, Vote_Count = Some 0\<rparr>]"
  by (simp add: load_data_def excel_example_def rename_columns_def resolve_genre_def
      clean_genre_def assign_def dropna_def release_date_astype_int_def to_numeric_def
      astype_str_def astype_int_def float_to_int_def strip_def isspace_def Let_def movies_def)

theorem load_data_invariant_witness:
  "\<exists>df. load_data (\<lambda>_. None) (\<lambda>_. []) excel_example = Inr df \<and>
         map title_year (rows df) = [(Str ''Heat'', Num 1995)] \<and>
         map (\<lambda>m. (Title m, Release_Date m)) (movies df) = [(Str ''Heat'', 1995)]"
proof -
  obtain df where df: "load_data (\<lambda>_. None) (\<lambda>_. []) excel_example = Inr df"
    using excel_example_loads by (elim exE)
  note inv = load_data_invariant [OF df]
  have kept: "map (\<lambda>r. (r ''Title'', astype_int (to_numeric (\<lambda>_. None) (r ''Release_Date''))))
               (filter (\<lambda>r. r ''Title'' \<noteq> Null \<and>
                            to_numeric (\<lambda>_. None) (r ''Release_Date'') \<noteq> Null)
                  (rows (rename_columns strip excel_example)))
             = [(Str ''Heat'', Num 1995)]"
    by (simp add: excel_example_def rename_columns_def to_numeric_def astype_int_def
        float_to_int_def strip_def isspace_def)
  have ty: "map title_year (rows df) = [(Str ''Heat'', Num 1995)]"
    using inv kept by simp
  have "map (\<lambda>m. (Title m, Num (of_int (Release_Date m)))) (movies df)
      = [(Str ''Heat'', Num 1995)]"
    using inv ty by simp
  then have "map (\<lambda>m. (Title m, Release_Date m)) (movies df) = [(Str ''Heat'', 1995)]"
    by (auto simp: map_eq_Cons_conv)
  with df ty show ?thesis
    by (intro exI conjI)
qed

end
